theory Spec2Isabelle
  imports Complex_Main "HOL-Library.Log_Nat"
begin

section \<open>JavaScript values\<close>

text \<open>
  The validation engine of \<^verbatim>\<open>src/server/services/validate-data\<close> works on the cells of
  an uploaded spreadsheet: strings, numbers and missing entries. The values of the model
  are the primitive values of the language.

  A number of the language is an IEEE-754 double. A finite number is given by its value, a
  rational; an operation computes the exact result and rounds it to the nearest double.
  The sign of zero is not part of the model: no comparison of the engine can see it.
\<close>

datatype jsnum = Fin rat | PosInfinity | NegInfinity | NaN

datatype jsval = JUndefined | JNull | JBool bool | JNum jsnum | JStr string

datatype js_error = TypeError | RangeError

subsection \<open>Rounding to a double\<close>

fun num_neg :: "jsnum \<Rightarrow> jsnum" where
  "num_neg (Fin a) = Fin (- a)"
| "num_neg PosInfinity = NegInfinity"
| "num_neg NegInfinity = PosInfinity"
| "num_neg NaN = NaN"

definition pow2 :: "int \<Rightarrow> rat" where
  "pow2 e = (if 0 \<le> e then 2 ^ nat e else 1 / 2 ^ nat (- e))"

definition pow10 :: "int \<Rightarrow> rat" where
  "pow10 e = (if 0 \<le> e then 10 ^ nat e else 1 / 10 ^ nat (- e))"

text \<open>The binary exponent of a positive rational \<open>r\<close>: \<open>2 ^ e \<le> r < 2 ^ (e + 1)\<close>.\<close>

definition ilog2 :: "rat \<Rightarrow> int" where
  "ilog2 r = (if 1 \<le> r then bitlen \<lfloor>r\<rfloor> - 1 else - bitlen (\<lceil>1 / r\<rceil> - 1))"

definition round_half_even :: "rat \<Rightarrow> int" where
  "round_half_even q =
     (let f = \<lfloor>q\<rfloor>; d = q - of_int f
      in if d < 1 / 2 then f else if 1 / 2 < d then f + 1 else if even f then f else f + 1)"

text \<open>
  The double nearest to a rational, a tie going to the even significand. A double has 53
  significant bits and an exponent of at least \<open>-1022\<close> (below it the numbers are
  subnormal); what rounds to \<open>2 ^ 1024\<close> or more is infinite.
\<close>

definition fl_pos :: "rat \<Rightarrow> jsnum" where
  "fl_pos r =
     (let e = max (ilog2 r) (- 1022);
          u = pow2 (e - 52);
          v = of_int (round_half_even (r / u)) * u
      in if pow2 1024 \<le> v then PosInfinity else Fin v)"

definition fl :: "rat \<Rightarrow> jsnum" where
  "fl r = (if r = 0 then Fin 0 else if 0 < r then fl_pos r else num_neg (fl_pos (- r)))"

subsection \<open>Arithmetic and comparison\<close>

text \<open>\<^verbatim>\<open>a + b\<close> on two numbers.\<close>

fun num_add :: "jsnum \<Rightarrow> jsnum \<Rightarrow> jsnum" where
  "num_add (Fin a) (Fin b) = fl (a + b)"
| "num_add NaN _ = NaN"
| "num_add _ NaN = NaN"
| "num_add PosInfinity NegInfinity = NaN"
| "num_add NegInfinity PosInfinity = NaN"
| "num_add PosInfinity _ = PosInfinity"
| "num_add NegInfinity _ = NegInfinity"
| "num_add _ PosInfinity = PosInfinity"
| "num_add _ NegInfinity = NegInfinity"

text \<open>\<^verbatim>\<open>a == b\<close> on two numbers: \<open>NaN\<close> equals nothing.\<close>

fun num_eq :: "jsnum \<Rightarrow> jsnum \<Rightarrow> bool" where
  "num_eq NaN _ = False"
| "num_eq _ NaN = False"
| "num_eq a b = (a = b)"

text \<open>\<^verbatim>\<open>a < b\<close> on two numbers: every comparison with \<open>NaN\<close> is false.\<close>

fun num_less :: "jsnum \<Rightarrow> jsnum \<Rightarrow> bool" where
  "num_less NaN _ = False"
| "num_less _ NaN = False"
| "num_less (Fin a) (Fin b) = (a < b)"
| "num_less _ NegInfinity = False"
| "num_less PosInfinity _ = False"
| "num_less NegInfinity _ = True"
| "num_less _ PosInfinity = True"




text \<open>Truthiness of a number: \<open>0\<close> and \<open>NaN\<close> are falsy.\<close>

fun num_truthy :: "jsnum \<Rightarrow> bool" where
  "num_truthy (Fin r) = (r \<noteq> 0)"
| "num_truthy NaN = False"
| "num_truthy _ = True"

text \<open>Truthiness of a value, as \<^verbatim>\<open>!v\<close>, \<^verbatim>\<open>v || w\<close> and \<^verbatim>\<open>v && w\<close> test it.\<close>

fun truthy :: "jsval \<Rightarrow> bool" where
  "truthy JUndefined = False"
| "truthy JNull = False"
| "truthy (JBool b) = b"
| "truthy (JNum n) = num_truthy n"
| "truthy (JStr s) = (s \<noteq> [])"

text \<open>\<^verbatim>\<open>a || b\<close> on values and on numbers.\<close>

definition js_or :: "jsval \<Rightarrow> jsval \<Rightarrow> jsval" where
  "js_or a b = (if truthy a then a else b)"

definition num_or :: "jsnum \<Rightarrow> jsnum \<Rightarrow> jsnum" where
  "num_or a b = (if num_truthy a then a else b)"

text \<open>
  \<^verbatim>\<open>a < b\<close> and \<^verbatim>\<open>a <= b\<close> on two strings: the lexicographic order of the code units.
\<close>

fun js_str_lt :: "string \<Rightarrow> string \<Rightarrow> bool" where
  "js_str_lt [] [] = False"
| "js_str_lt [] (y # ys) = True"
| "js_str_lt (x # xs) [] = False"
| "js_str_lt (x # xs) (y # ys) =
     ((of_char x :: nat) < of_char y \<or> (x = y \<and> js_str_lt xs ys))"

definition js_str_le :: "string \<Rightarrow> string \<Rightarrow> bool" where
  "js_str_le a b = (\<not> js_str_lt b a)"

subsection \<open>The decimal notation of a number and \<^verbatim>\<open>_.round\<close>\<close>

text \<open>
  \<^verbatim>\<open>String(x)\<close> of a finite number writes the decimal with the fewest significant digits
  that rounds to \<open>x\<close>, and of those the one nearest to \<open>x\<close>. \<open>shortest_decimal\<close> is the value
  of that decimal. Fewest digits means the coarsest grid of multiples of a power of ten
  that has such a decimal; on a grid only the two neighbours of \<open>x\<close> can round to \<open>x\<close>. The
  search starts at the power of ten above \<open>x\<close>; 17 digits are enough for every double, and
  the exponents of the doubles span less than 700 powers of ten.
\<close>

function digits :: "int \<Rightarrow> int" where
  "digits n = (if n < 10 then 1 else 1 + digits (n div 10))"
  by pat_completeness auto
termination
  by (relation "measure nat") auto

declare digits.simps [simp del]

definition candidate :: "rat \<Rightarrow> int \<Rightarrow> rat option" where
  "candidate x j =
     (let g = pow10 j;
          lo = of_int \<lfloor>x / g\<rfloor> * g;
          hi = of_int \<lceil>x / g\<rceil> * g;
          lo_ok = (fl lo = Fin x);
          hi_ok = (fl hi = Fin x)
      in if lo_ok \<and> hi_ok then
           Some (if x - lo < hi - x then lo
                 else if hi - x < x - lo then hi
                 else if even \<lfloor>x / g\<rfloor> then lo else hi)
         else if lo_ok then Some lo
         else if hi_ok then Some hi
         else None)"

fun scan :: "nat \<Rightarrow> rat \<Rightarrow> int \<Rightarrow> rat" where
  "scan 0 x j = x"
| "scan (Suc fuel) x j =
     (case candidate x j of Some d \<Rightarrow> d | None \<Rightarrow> scan fuel x (j - 1))"

definition shortest_decimal :: "rat \<Rightarrow> rat" where
  "shortest_decimal x =
     (if x = 0 then 0
      else if 0 < x then scan 700 x (digits \<lceil>x\<rceil>)
      else - scan 700 (- x) (digits \<lceil>- x\<rceil>))"

text \<open>
  \<^verbatim>\<open>_.round(x, 2)\<close> on a number. For a finite \<open>x\<close> lodash writes \<open>x\<close> in decimal notation,
  adds 2 to the exponent of the notation and reads the number back, applies \<^verbatim>\<open>Math.round\<close>
  (the nearest integer, a half going up), writes the result, subtracts 2 from the exponent
  and reads the number back. Reading rounds the decimal to a double. When the shifted
  number is infinite, its notation with an exponent reads as \<open>NaN\<close>. On a number that is
  not finite \<^verbatim>\<open>_.round\<close> is \<^verbatim>\<open>Math.round\<close> alone.
\<close>

fun round2 :: "jsnum \<Rightarrow> jsnum" where
  "round2 (Fin x) =
     (case fl (shortest_decimal x * 100) of
        Fin y \<Rightarrow> fl (shortest_decimal (of_int \<lfloor>y + 1 / 2\<rfloor>) / 100)
      | _ \<Rightarrow> NaN)"
| "round2 n = n"

subsection \<open>The runtime library\<close>

text \<open>
  The functions of the language and of the modules \<^verbatim>\<open>ssf\<close>, \<^verbatim>\<open>lodash\<close>, \<^verbatim>\<open>get-template\<close> and
  \<^verbatim>\<open>helpers\<close> that the engine calls are not under \<^verbatim>\<open>validate-data/index.js\<close>. They are
  parameters of the model: every theorem holds for every choice of them. Each returns a
  value for every argument.
\<close>

record js_lib =
  numToString :: "jsnum \<Rightarrow> string"  \<comment> \<open>\<^verbatim>\<open>String(n)\<close> for a number\<close>
  stringToNumber :: "string \<Rightarrow> jsnum"  \<comment> \<open>\<^verbatim>\<open>Number(s)\<close> for a string\<close>
  parseFloatString :: "string \<Rightarrow> jsnum"  \<comment> \<open>\<^verbatim>\<open>parseFloat(s)\<close> for a string\<close>
  toLowerCase :: "string \<Rightarrow> string"  \<comment> \<open>\<^verbatim>\<open>s.toLowerCase()\<close>\<close>
  dateGetTime :: "jsval \<Rightarrow> jsnum"  \<comment> \<open>\<^verbatim>\<open>new Date(v).getTime()\<close>\<close>
  ssf_format :: "string \<Rightarrow> jsval \<Rightarrow> string"  \<comment> \<open>\<^verbatim>\<open>ssf.format(fmt, v)\<close>\<close>
  getDropdownValues :: "(string \<rightharpoonup> string list) option"
    \<comment> \<open>the reference table of \<^verbatim>\<open>get-template\<close>, \<open>None\<close> before it is initialized\<close>
  subrecipientKey :: "(string \<rightharpoonup> jsval) \<Rightarrow> jsval"  \<comment> \<open>\<^verbatim>\<open>subrecipientKey\<close> of \<^verbatim>\<open>helpers\<close>\<close>
  lodash_has :: "(string \<rightharpoonup> string \<rightharpoonup> jsval) option \<Rightarrow> jsval \<Rightarrow> bool"
    \<comment> \<open>\<^verbatim>\<open>_.has(object, path)\<close>, which reads dots and brackets in the path\<close>

text \<open>\<^verbatim>\<open>String(v)\<close>, \<^verbatim>\<open>v.toString()\<close> on a value that has the method, and a template literal.\<close>

fun toString :: "js_lib \<Rightarrow> jsval \<Rightarrow> string" where
  "toString lib JUndefined = ''undefined''"
| "toString lib JNull = ''null''"
| "toString lib (JBool b) = (if b then ''true'' else ''false'')"
| "toString lib (JNum n) = numToString lib n"
| "toString lib (JStr s) = s"

text \<open>\<^verbatim>\<open>Number(v)\<close>, which is also what \<^verbatim>\<open>_.round\<close> applies to its argument first.\<close>

fun toNumber :: "js_lib \<Rightarrow> jsval \<Rightarrow> jsnum" where
  "toNumber lib JUndefined = NaN"
| "toNumber lib JNull = Fin 0"
| "toNumber lib (JBool b) = (if b then Fin 1 else Fin 0)"
| "toNumber lib (JNum n) = n"
| "toNumber lib (JStr s) = stringToNumber lib s"


section \<open>The data model\<close>

text \<open>
  The content of a record of a tab maps a column name to the value of the cell;
  \<^verbatim>\<open>content[key]\<close> of a missing key is \<^verbatim>\<open>undefined\<close>.
\<close>

type_synonym content = "string \<rightharpoonup> jsval"

definition js_get :: "content \<Rightarrow> string \<Rightarrow> jsval" where
  "js_get c k = (case c k of None \<Rightarrow> JUndefined | Some v \<Rightarrow> v)"

record document =
  doc_type :: string  \<comment> \<open>the field \<^verbatim>\<open>type\<close>: the tab of the record\<close>
  doc_content :: content  \<comment> \<open>the field \<^verbatim>\<open>content\<close>\<close>
  sourceRow :: "nat option"

text \<open>The context of \<^verbatim>\<open>validateData\<close>. A caller may leave any field out (\<^verbatim>\<open>context = {}\<close>).\<close>

record reporting_period =
  startDate :: string
  endDate :: string
  periodOfPerformanceEndDate :: string

record validate_context =
  fileParts :: "(string \<rightharpoonup> jsval) option"
  firstReportingPeriodStartDate :: "string option"
  reportingPeriod :: "reporting_period option"
  subrecipientsHash :: "(string \<rightharpoonup> content) option"
  ctx_tags :: "string list option"  \<comment> \<open>the field \<^verbatim>\<open>tags\<close> of the context\<close>
  periodSummaries :: "content list option"

definition empty_context :: validate_context where
  "empty_context = \<lparr>fileParts = None, firstReportingPeriodStartDate = None,
     reportingPeriod = None, subrecipientsHash = None, ctx_tags = None,
     periodSummaries = None\<rparr>"

text \<open>
  A validator is called with the value, the content and the context. It returns a boolean
  or throws.
\<close>

type_synonym validator = "jsval \<Rightarrow> content \<Rightarrow> validate_context \<Rightarrow> js_error + bool"

record rule_options =
  tags :: "string list option"
  isDateValue :: bool

text \<open>A rule is the array \<^verbatim>\<open>[key, validator, message, options]\<close>; the last two may be missing.\<close>

type_synonym rule = "string \<times> validator \<times> string option \<times> rule_options option"

text \<open>
  \<^verbatim>\<open>ValidationItem\<close> of \<^verbatim>\<open>lib/validation-log\<close> holds what it is constructed from: the
  message, the tab and the row, which may be missing.
\<close>

datatype validation_item = ValidationItem string string "nat option"
  \<comment> \<open>\<^verbatim>\<open>new ValidationItem({ message, tab, row })\<close>, in this order\<close>

type_synonym grouped_documents = "string \<rightharpoonup> document list"

type_synonym tab_validator =
  "grouped_documents \<Rightarrow> validate_context \<Rightarrow> js_error + validation_item list"

section \<open>The predicate library\<close>

text \<open>\<^verbatim>\<open>_.isNumber\<close> and \<^verbatim>\<open>_.isEmpty\<close> on a primitive value.\<close>

fun lodash_isNumber :: "jsval \<Rightarrow> bool" where
  "lodash_isNumber (JNum n) = True"
| "lodash_isNumber _ = False"

fun lodash_isEmpty :: "jsval \<Rightarrow> bool" where
  "lodash_isEmpty (JStr s) = (s = [])"
| "lodash_isEmpty _ = True"

definition dateIsInPeriodOfPerformance :: "js_lib \<Rightarrow> validator" where
  "dateIsInPeriodOfPerformance lib val content ctx =
     (case reportingPeriod ctx of
        None \<Rightarrow> Inl TypeError
      | Some period \<Rightarrow>
          (let dt = ssf_format lib ''yyyy-MM-dd'' val
           in Inr (js_str_le dt (periodOfPerformanceEndDate period))))"

definition dateIsInReportingPeriod :: "js_lib \<Rightarrow> validator" where
  "dateIsInReportingPeriod lib val content ctx =
     (case reportingPeriod ctx of
        None \<Rightarrow> Inl TypeError
      | Some period \<Rightarrow>
          (let dt = ssf_format lib ''yyyy-MM-dd'' val
           in Inr (js_str_le (startDate period) dt
                   \<and> js_str_le dt (endDate period))))"




definition isNotBlank :: validator where
  "isNotBlank val content ctx = Inr (lodash_isNumber val \<or> \<not> lodash_isEmpty val)"

definition isNumber :: validator where
  "isNumber val content ctx = Inr (lodash_isNumber val)"


definition isPositiveNumber :: validator where
  "isPositiveNumber val content ctx =
     Inr (case val of JNum n \<Rightarrow> num_less (Fin 0) n | _ \<Rightarrow> False)"





text \<open>
  \<^verbatim>\<open>cumulativeAmountIsEqual(key, filterPredicate)\<close>. The callback of \<^verbatim>\<open>reduce\<close> is
  \<^verbatim>\<open>acc + Number(s) || 0.0\<close>, in which \<^verbatim>\<open>+\<close> binds tighter than \<^verbatim>\<open>||\<close>. The shorthand
  \<^verbatim>\<open>.map("current_" + key)\<close> reads the property of that name of each summary (a key is a
  column name, without the dots and brackets that lodash would read as a path).
\<close>

definition cumulative_step :: "js_lib \<Rightarrow> jsnum \<Rightarrow> jsval \<Rightarrow> jsnum" where
  "cumulative_step lib acc s = num_or (num_add acc (toNumber lib s)) (Fin 0)"

definition cumulativeAmountIsEqual ::
  "js_lib \<Rightarrow> string \<Rightarrow> (content \<Rightarrow> bool) \<Rightarrow> validator" where
  "cumulativeAmountIsEqual lib key filterPredicate val content ctx =
     (let currentPeriodAmount = num_or (toNumber lib (js_get content key)) (Fin 0);
          summaries = (case periodSummaries ctx of None \<Rightarrow> [] | Some ps \<Rightarrow> ps);
          sum = foldl (cumulative_step lib) currentPeriodAmount
                  (map (\<lambda>s. js_get s (''current_'' @ key)) (filter filterPredicate summaries))
      in Inr (num_eq (round2 (toNumber lib val)) (round2 sum)))"






text \<open>\<^verbatim>\<open>s.replace(/^0*/, "")\<close> removes the leading zeros of a string.\<close>

definition strip_zeros :: "string \<Rightarrow> string" where
  "strip_zeros s = dropWhile (\<lambda>c. c = CHR ''0'') s"

text \<open>
  \<^verbatim>\<open>matchesFilePart(key)\<close>. \<^verbatim>\<open>fileParts[key].replace\<close> is evaluated first: it throws when
  the context has no file parts, when the part is missing and when the part is not a
  string.
\<close>

definition matchesFilePart :: "js_lib \<Rightarrow> string \<Rightarrow> validator" where
  "matchesFilePart lib key val content ctx =
     (case fileParts ctx of
        None \<Rightarrow> Inl TypeError
      | Some parts \<Rightarrow>
          (case parts key of
             Some (JStr part) \<Rightarrow>
               (let fileValue = strip_zeros part;
                    documentValue = strip_zeros (toString lib (js_or val (JStr '''')))
                in Inr (documentValue = fileValue))
           | _ \<Rightarrow> Inl TypeError))"





subsection \<open>The conditional combinators\<close>





section \<open>The field validator executor\<close>

text \<open>
  \<^verbatim>\<open>message.replace("{}", r)\<close> replaces the first \<^verbatim>\<open>{}\<close> of the message. The replacement
  is a string, in which \<^verbatim>\<open>$$\<close> stands for \<^verbatim>\<open>$\<close>, \<^verbatim>\<open>$&\<close> for the match, and \<^verbatim>\<open>$\<close> with a
  backquote or a quote for the text before or after the match; there is no capture group,
  so any other \<^verbatim>\<open>$\<close> stands for itself.
\<close>

fun find_braces :: "string \<Rightarrow> (string \<times> string) option" where
  "find_braces [] = None"
| "find_braces [c] = None"
| "find_braces (c # d # cs) =
     (if c = CHR ''{'' \<and> d = CHR ''}'' then Some ([], cs)
      else (case find_braces (d # cs) of
              None \<Rightarrow> None
            | Some (pre, post) \<Rightarrow> Some (c # pre, post)))"

fun substitution :: "string \<Rightarrow> string \<Rightarrow> string \<Rightarrow> string \<Rightarrow> string" where
  "substitution matched pre post [] = []"
| "substitution matched pre post [c] = [c]"
| "substitution matched pre post (c # d # r) =
     (if c = CHR ''$'' \<and> d = CHR ''$'' then CHR ''$'' # substitution matched pre post r
      else if c = CHR ''$'' \<and> d = CHR ''&'' then matched @ substitution matched pre post r
      else if c = CHR ''$'' \<and> d = CHR 0x60 then pre @ substitution matched pre post r
      else if c = CHR ''$'' \<and> d = CHR 0x27 then post @ substitution matched pre post r
      else c # substitution matched pre post (d # r))"

definition replace_braces :: "string \<Rightarrow> string \<Rightarrow> string" where
  "replace_braces s r =
     (case find_braces s of
        None \<Rightarrow> s
      | Some (pre, post) \<Rightarrow> pre @ substitution ''{}'' pre post r @ post)"

definition addValueToMessage :: "js_lib \<Rightarrow> string \<Rightarrow> jsval \<Rightarrow> string" where
  "addValueToMessage lib message value =
     replace_braces message (toString lib (js_or value (JStr '''')))"

definition messageValue :: "js_lib \<Rightarrow> jsval \<Rightarrow> rule_options option \<Rightarrow> jsval" where
  "messageValue lib val options =
     (case options of
        None \<Rightarrow> val
      | Some opts \<Rightarrow>
          if isDateValue opts \<and> truthy val then
            (let dt = dateGetTime lib val
             in if dt = NaN then val else JStr (ssf_format lib ''MM/dd/yyyy'' val))
          else val)"

text \<open>\<^verbatim>\<open>_.intersection(xs, ys)\<close>: the values of \<open>xs\<close> that are in \<open>ys\<close>, each once.\<close>

definition lodash_intersection :: "string list \<Rightarrow> string list \<Rightarrow> string list" where
  "lodash_intersection xs ys = filter (\<lambda>x. x \<in> set ys) (rev (remdups (rev xs)))"

text \<open>An array is truthy, also the empty one: \<^verbatim>\<open>!tags\<close> holds for missing tags only.\<close>

definition includeValidator :: "rule_options option \<Rightarrow> validate_context \<Rightarrow> bool" where
  "includeValidator options context =
     (case (case options of None \<Rightarrow> None | Some opts \<Rightarrow> tags opts) of
        None \<Rightarrow> True
      | Some ts \<Rightarrow>
          (case ctx_tags context of
             None \<Rightarrow> False
           | Some cs \<Rightarrow> lodash_intersection ts cs \<noteq> []))"

definition default_message :: "string \<Rightarrow> string" where
  "default_message key = ''Empty or invalid entry for '' @ key @ [CHR '':'', CHR '' '', CHR 0x22, CHR ''{'', CHR ''}'', CHR 0x22]"

text \<open>
  \<^verbatim>\<open>validateFields\<close>: the loop over the rules. A validator that throws ends the loop, and
  the items pushed so far are lost with it. An empty message is falsy and gives the default
  message.
\<close>

fun validateFields ::
  "js_lib \<Rightarrow> rule list \<Rightarrow> content \<Rightarrow> string \<Rightarrow> nat option \<Rightarrow> validate_context
   \<Rightarrow> js_error + validation_item list" where
  "validateFields lib [] content tab row context = Inr []"
| "validateFields lib ((key, validator, message, options) # requiredFields) content tab row context =
     (if includeValidator options context then
        (let val = js_or (js_get content key) (JStr '''')
         in case validator val content context of
              Inl e \<Rightarrow> Inl e
            | Inr ok \<Rightarrow>
                (case validateFields lib requiredFields content tab row context of
                   Inl e \<Rightarrow> Inl e
                 | Inr valog \<Rightarrow>
                     if \<not> ok then
                       Inr (ValidationItem
                              (addValueToMessage lib
                                 (case message of
                                    None \<Rightarrow> default_message key
                                  | Some m \<Rightarrow> if m = [] then default_message key else m)
                                 (messageValue lib val options))
                              tab row # valog)
                     else Inr valog))
      else validateFields lib requiredFields content tab row context)"

section \<open>The document-set validators\<close>

text \<open>\<^verbatim>\<open>_.flatMap\<close> with a callback that may throw; of a missing collection it is empty.\<close>

fun flatMap :: "'a list \<Rightarrow> ('a \<Rightarrow> js_error + 'b list) \<Rightarrow> js_error + 'b list" where
  "flatMap [] f = Inr []"
| "flatMap (x # xs) f =
     (case f x of
        Inl e \<Rightarrow> Inl e
      | Inr ys \<Rightarrow> (case flatMap xs f of Inl e \<Rightarrow> Inl e | Inr zs \<Rightarrow> Inr (ys @ zs)))"

definition validateDocuments :: "js_lib \<Rightarrow> string \<Rightarrow> rule list \<Rightarrow> tab_validator" where
  "validateDocuments lib tab validations groupedDocuments validateContext =
     (let documents = (case groupedDocuments tab of None \<Rightarrow> [] | Some ds \<Rightarrow> ds)
      in flatMap documents
           (\<lambda>d. validateFields lib validations (doc_content d) tab (sourceRow d)
                  validateContext))"

definition validateSingleDocument ::
  "js_lib \<Rightarrow> string \<Rightarrow> rule list \<Rightarrow> string \<Rightarrow> tab_validator" where
  "validateSingleDocument lib tab validations message groupedDocuments validateContext =
     (case groupedDocuments tab of
        None \<Rightarrow> Inr [ValidationItem message tab None]
      | Some documents \<Rightarrow>
          if length documents = 1 then
            (let content = doc_content (documents ! 0);
                 row = Some 2
             in validateFields lib validations content tab row validateContext)
          else Inr [ValidationItem message tab None])"

section \<open>The orchestrator\<close>

text \<open>
  \<^verbatim>\<open>_.groupBy(documents, "type")\<close>: the documents of each type in their order; a type
  without documents has no entry.
\<close>

definition groupBy :: "document list \<Rightarrow> grouped_documents" where
  "groupBy documents =
     (\<lambda>t. case filter (\<lambda>d. doc_type d = t) documents of [] \<Rightarrow> None | ds \<Rightarrow> Some ds)"

text \<open>The row of the reporting period, with its dates as the database gives them.\<close>

record 'd reporting_period_row =
  start_date :: 'd
  end_date :: 'd
  period_of_performance_end_date :: 'd
  validation_rule_tags :: "string list option"

text \<open>
  \<^verbatim>\<open>validateData\<close>. The tab validators of the eight required modules,
  \<^verbatim>\<open>getSubrecipientsHash\<close> of \<^verbatim>\<open>helpers\<close> and \<^verbatim>\<open>format\<close> of \<^verbatim>\<open>date-fns\<close>, which throws on
  an invalid date, are parameters. The arguments \<^verbatim>\<open>fileParts\<close>, \<^verbatim>\<open>reportingPeriod\<close> and
  \<^verbatim>\<open>periodSummaries\<close> are \<open>parts\<close>, \<open>period\<close> and \<open>summaries\<close> here, the longer names being
  the fields of the context.
\<close>

definition validateData ::
  "('d \<Rightarrow> string \<Rightarrow> js_error + string)
   \<Rightarrow> (document list option \<Rightarrow> (string \<rightharpoonup> content) option)
   \<Rightarrow> tab_validator list
   \<Rightarrow> document list \<Rightarrow> (string \<rightharpoonup> jsval) \<Rightarrow> 'd reporting_period_row \<Rightarrow> content list
   \<Rightarrow> js_error + validation_item list" where
  "validateData format getSubrecipientsHash tabValidators documents parts period summaries =
     (let groupedDocuments = groupBy documents;
          hash = getSubrecipientsHash (groupedDocuments ''subrecipient'')
      in case format (start_date period) ''yyyy-MM-dd'' of
           Inl e \<Rightarrow> Inl e
         | Inr sd \<Rightarrow>
        (case format (end_date period) ''yyyy-MM-dd'' of
           Inl e \<Rightarrow> Inl e
         | Inr ed \<Rightarrow>
        (case format (period_of_performance_end_date period) ''yyyy-MM-dd'' of
           Inl e \<Rightarrow> Inl e
         | Inr pd \<Rightarrow>
        (let validateContext =
               \<lparr>fileParts = Some parts,
                firstReportingPeriodStartDate = Some ''2020-03-01'',
                reportingPeriod =
                  Some \<lparr>startDate = sd, endDate = ed, periodOfPerformanceEndDate = pd\<rparr>,
                subrecipientsHash = hash,
                ctx_tags = validation_rule_tags period,
                periodSummaries = Some summaries\<rparr>
         in flatMap tabValidators
              (\<lambda>tabValidator.
                 map_sum id (take 100) (tabValidator groupedDocuments validateContext))))))"

section \<open>A library for the examples\<close>

text \<open>
  The examples below are evaluated with this library. Its reference table knows two state
  codes, and its \<^verbatim>\<open>ssf.format\<close> returns a string as it is, which is what \<^verbatim>\<open>ssf\<close> does
  with a string under a date format.
\<close>

definition example_lib :: js_lib where
  "example_lib =
     \<lparr>numToString = (\<lambda>n. ''NaN''), stringToNumber = (\<lambda>s. NaN),
      parseFloatString = (\<lambda>s. NaN), toLowerCase = (\<lambda>s. s), dateGetTime = (\<lambda>v. NaN),
      ssf_format = (\<lambda>fmt v. case v of JStr s \<Rightarrow> s | _ \<Rightarrow> []),
      getDropdownValues = Some [''state code'' \<mapsto> [''ca'', ''ny'']],
      subrecipientKey = (\<lambda>c. JUndefined),
      lodash_has = (\<lambda>h v. case h of
                            None \<Rightarrow> False
                          | Some m \<Rightarrow> (case v of JStr s \<Rightarrow> m s \<noteq> None | _ \<Rightarrow> False))\<rparr>"


section \<open>Properties of the orchestrator\<close>

lemma flatMap_all_Inr:
  "list_all2 (\<lambda>x ys. f x = Inr ys) xs yss \<Longrightarrow> flatMap xs f = Inr (concat yss)"
  by (induction rule: list_all2_induct) simp_all

lemma list_all2_take_100:
  "list_all2 (\<lambda>tv fs. tv g c = Inr fs) tvs fss \<Longrightarrow>
   list_all2 (\<lambda>tv ys. map_sum id (take 100) (tv g c) = Inr ys) tvs (map (take 100) fss)"
  by (induction rule: list_all2_induct) simp_all

text \<open>
  Claim C1. When the three dates of the reporting period format and every tab validator
  returns its findings, \<^verbatim>\<open>validateData\<close> returns the concatenation, in the order of the tab
  validators, of the first 100 findings of each: a kept finding is at its original
  position, and a tab validator with 150 findings contributes its first 100.
\<close>

theorem validateData_truncates_each_tab:
  assumes sd: "format (start_date period) ''yyyy-MM-dd'' = Inr sd"
    and ed: "format (end_date period) ''yyyy-MM-dd'' = Inr ed"
    and pd: "format (period_of_performance_end_date period) ''yyyy-MM-dd'' = Inr pd"
    and ctx: "validateContext =
      \<lparr>fileParts = Some parts, firstReportingPeriodStartDate = Some ''2020-03-01'',
       reportingPeriod = Some \<lparr>startDate = sd, endDate = ed, periodOfPerformanceEndDate = pd\<rparr>,
       subrecipientsHash = getSubrecipientsHash (groupBy documents ''subrecipient''),
       ctx_tags = validation_rule_tags period, periodSummaries = Some summaries\<rparr>"
    and tabs: "list_all2
      (\<lambda>tabValidator findings. tabValidator (groupBy documents) validateContext = Inr findings)
      tabValidators findingss"
  shows "validateData format getSubrecipientsHash tabValidators documents parts period summaries
           = Inr (concat (map (take 100) findingss))
       \<and> (\<forall>findings \<in> set findingss.
             length (take 100 findings) \<le> 100
           \<and> take 100 findings = map (\<lambda>i. findings ! i) [0..<min 100 (length findings)])
       \<and> (\<forall>findings \<in> set findingss. length findings = 150 \<longrightarrow>
             length (take 100 findings) = 100
           \<and> take 100 findings = map (\<lambda>i. findings ! i) [0..<100])"
proof -
  have "flatMap tabValidators
          (\<lambda>tabValidator. map_sum id (take 100) (tabValidator (groupBy documents) validateContext))
        = Inr (concat (map (take 100) findingss))"
    by (rule flatMap_all_Inr) (rule list_all2_take_100 [OF tabs])
  then have run: "validateData format getSubrecipientsHash tabValidators documents parts period
      summaries = Inr (concat (map (take 100) findingss))"
    by (simp add: validateData_def Let_def sd ed pd ctx)
  have kept: "take 100 fs = map (\<lambda>i. fs ! i) [0..<min 100 (length fs)]"
    for fs :: "validation_item list"
    by (rule nth_equalityI) auto
  show ?thesis
    using run kept by (simp add: min_def)
qed

text \<open>
  A run with two tab validators: the first returns 150 findings, numbered by their row, the
  second returns one. The output is the findings 0 to 99 of the first and then the finding
  of the second.
\<close>

theorem validateData_truncates_each_tab_witness:
  "validateData (\<lambda>d f. Inr d) (\<lambda>ds. None)
      [\<lambda>g c. Inr (map (\<lambda>i. ValidationItem ''m'' ''t'' (Some i)) [0..<150]),
       \<lambda>g c. Inr [ValidationItem ''x'' ''u'' None]]
      [] Map.empty
      \<lparr>start_date = ''a'', end_date = ''b'', period_of_performance_end_date = ''c'',
       validation_rule_tags = None\<rparr> []
    = Inr (map (\<lambda>i. ValidationItem ''m'' ''t'' (Some i)) [0..<100]
           @ [ValidationItem ''x'' ''u'' None])"
  using validateData_truncates_each_tab
    [where format = "\<lambda>d f. Inr d"
       and period = "\<lparr>start_date = ''a'', end_date = ''b'',
                      period_of_performance_end_date = ''c'', validation_rule_tags = None\<rparr>"
       and sd = "''a''" and ed = "''b''" and pd = "''c''"
       and getSubrecipientsHash = "\<lambda>ds. None" and documents = "[]"
       and parts = Map.empty and summaries = "[]"
       and tabValidators = "[\<lambda>g c. Inr (map (\<lambda>i. ValidationItem ''m'' ''t'' (Some i)) [0..<150]),
                            \<lambda>g c. Inr [ValidationItem ''x'' ''u'' None]]"
       and findingss = "[map (\<lambda>i. ValidationItem ''m'' ''t'' (Some i)) [0..<150],
                        [ValidationItem ''x'' ''u'' None]]",
     OF _ _ _ refl]
  by (simp add: take_map)

section \<open>Properties of the field validator executor\<close>

lemma lodash_intersection_nonempty:
  "lodash_intersection xs ys \<noteq> [] \<longleftrightarrow> set xs \<inter> set ys \<noteq> {}"
  by (auto simp: lodash_intersection_def filter_empty_conv)

text \<open>
  Claim C2. A rule without tags is included. A rule with tags is included exactly when the
  context has tags and the two sets of tags have a common element. A rule that is not
  included is skipped whatever its validator is, also one that would throw; the validator
  of an included rule is called: what it throws is thrown, and its answer decides whether
  the rule adds a finding.
\<close>

theorem includeValidator_tag_gate:
  "(includeValidator options context \<longleftrightarrow>
      (case options of
         None \<Rightarrow> True
       | Some opts \<Rightarrow>
           (case tags opts of
              None \<Rightarrow> True
            | Some ts \<Rightarrow>
                (case ctx_tags context of
                   None \<Rightarrow> False
                 | Some cs \<Rightarrow> set ts \<inter> set cs \<noteq> {}))))
   \<and> (\<not> includeValidator options context \<longrightarrow>
        validateFields lib ((key, validator, message, options) # rules) content tab row context
        = validateFields lib rules content tab row context)
   \<and> (includeValidator options context \<longrightarrow>
        (\<forall>e. validator (js_or (js_get content key) (JStr '''')) content context = Inl e \<longrightarrow>
           validateFields lib ((key, validator, message, options) # rules) content tab row context
           = Inl e)
      \<and> (validator (js_or (js_get content key) (JStr '''')) content context = Inr True \<longrightarrow>
           validateFields lib ((key, validator, message, options) # rules) content tab row context
           = validateFields lib rules content tab row context)
      \<and> (\<forall>valog. validator (js_or (js_get content key) (JStr '''')) content context = Inr False \<longrightarrow>
           validateFields lib rules content tab row context = Inr valog \<longrightarrow>
           validateFields lib ((key, validator, message, options) # rules) content tab row context
           = Inr (ValidationItem
                    (addValueToMessage lib
                       (case message of
                          None \<Rightarrow> default_message key
                        | Some m \<Rightarrow> if m = [] then default_message key else m)
                       (messageValue lib (js_or (js_get content key) (JStr '''')) options))
                    tab row # valog)))"
  by (auto simp: includeValidator_def lodash_intersection_nonempty Let_def
        split: option.splits sum.splits)

text \<open>
  A rule with the tag \<open>X\<close> and a validator that always throws: with the context tags \<open>Y\<close>
  it is skipped and nothing is thrown, with the context tags \<open>Y\<close> and \<open>X\<close> it throws.
\<close>

theorem includeValidator_tag_gate_witness:
  "validateFields example_lib
     [(''k'', (\<lambda>v c x. Inl TypeError), None, Some \<lparr>tags = Some [''X''], isDateValue = False\<rparr>)]
     Map.empty ''t'' None (empty_context\<lparr>ctx_tags := Some [''Y'']\<rparr>) = Inr []
   \<and> validateFields example_lib
     [(''k'', (\<lambda>v c x. Inl TypeError), None, Some \<lparr>tags = Some [''X''], isDateValue = False\<rparr>)]
     Map.empty ''t'' None (empty_context\<lparr>ctx_tags := Some [''Y'', ''X'']\<rparr>) = Inl TypeError"
  using includeValidator_tag_gate
      [of "Some \<lparr>tags = Some [''X''], isDateValue = False\<rparr>"
          "empty_context\<lparr>ctx_tags := Some [''Y'']\<rparr>" example_lib "''k''"
          "\<lambda>v c x. Inl TypeError" None "[]" Map.empty "''t''" None]
    includeValidator_tag_gate
      [of "Some \<lparr>tags = Some [''X''], isDateValue = False\<rparr>"
          "empty_context\<lparr>ctx_tags := Some [''Y'', ''X'']\<rparr>" example_lib "''k''"
          "\<lambda>v c x. Inl TypeError" None "[]" Map.empty "''t''" None]
  by (simp add: empty_context_def)

lemma messageValue_falsy: "\<not> truthy val \<Longrightarrow> messageValue lib val options = val"
  by (simp add: messageValue_def split: option.splits)

lemma addValueToMessage_empty: "addValueToMessage lib m (JStr []) = replace_braces m []"
  by (simp add: addValueToMessage_def js_or_def)

text \<open>
  Claim C9. When the value of the field is falsy, the validator of an included rule is
  called with the empty string and the message is formatted with the empty string. The
  missing value, \<^verbatim>\<open>null\<close>, \<^verbatim>\<open>false\<close>, the numbers \<open>0\<close> and \<open>NaN\<close> and the empty string are
  falsy. So for a field that holds the number \<open>0\<close>, \<^verbatim>\<open>isNumber\<close>, which accepts \<open>0\<close>, and
  \<^verbatim>\<open>isPositiveNumber\<close> receive the empty string and the rule adds a finding.
\<close>

theorem validateFields_falsy_value_becomes_empty_string:
  "(\<not> truthy (js_get content key) \<longrightarrow> includeValidator options context \<longrightarrow>
      validateFields lib ((key, validator, message, options) # rules) content tab row context =
        (case validator (JStr '''') content context of
           Inl e \<Rightarrow> Inl e
         | Inr ok \<Rightarrow>
             (case validateFields lib rules content tab row context of
                Inl e \<Rightarrow> Inl e
              | Inr valog \<Rightarrow>
                  Inr (if ok then valog
                       else ValidationItem
                              (replace_braces
                                 (case message of
                                    None \<Rightarrow> default_message key
                                  | Some m \<Rightarrow> if m = [] then default_message key else m)
                                 '''')
                              tab row # valog))))
   \<and> (\<forall>v \<in> {JUndefined, JNull, JBool False, JNum (Fin 0), JNum NaN, JStr ''''}. \<not> truthy v)
   \<and> (content key = None \<longrightarrow> js_get content key = JUndefined)
   \<and> (content key = Some (JNum (Fin 0)) \<longrightarrow>
        isNumber (JNum (Fin 0)) content context = Inr True
      \<and> validateFields lib [(key, isNumber, None, None)] content tab row context
        = Inr [ValidationItem (replace_braces (default_message key) '''') tab row]
      \<and> validateFields lib [(key, isPositiveNumber, None, None)] content tab row context
        = Inr [ValidationItem (replace_braces (default_message key) '''') tab row])"
proof -
  have called: "\<not> truthy (js_get content key) \<longrightarrow> includeValidator options context \<longrightarrow>
      validateFields lib ((key, validator, message, options) # rules) content tab row context =
        (case validator (JStr '''') content context of
           Inl e \<Rightarrow> Inl e
         | Inr ok \<Rightarrow>
             (case validateFields lib rules content tab row context of
                Inl e \<Rightarrow> Inl e
              | Inr valog \<Rightarrow>
                  Inr (if ok then valog
                       else ValidationItem
                              (replace_braces
                                 (case message of
                                    None \<Rightarrow> default_message key
                                  | Some m \<Rightarrow> if m = [] then default_message key else m)
                                 '''')
                              tab row # valog)))"
    by (simp add: js_or_def Let_def messageValue_falsy addValueToMessage_empty split: sum.splits)
  have falsy: "\<forall>v \<in> {JUndefined, JNull, JBool False, JNum (Fin 0), JNum NaN, JStr ''''}. \<not> truthy v"
    by simp
  have missing: "content key = None \<longrightarrow> js_get content key = JUndefined"
    by (simp add: js_get_def)
  have zero: "content key = Some (JNum (Fin 0)) \<longrightarrow>
        isNumber (JNum (Fin 0)) content context = Inr True
      \<and> validateFields lib [(key, isNumber, None, None)] content tab row context
        = Inr [ValidationItem (replace_braces (default_message key) '''') tab row]
      \<and> validateFields lib [(key, isPositiveNumber, None, None)] content tab row context
        = Inr [ValidationItem (replace_braces (default_message key) '''') tab row]"
    by (simp add: js_get_def js_or_def includeValidator_def isNumber_def isPositiveNumber_def
          messageValue_def addValueToMessage_def)
  from called falsy missing zero show ?thesis by blast
qed

text \<open>
  The field \<^verbatim>\<open>amount\<close> holds the number \<open>0\<close> and the rule is \<^verbatim>\<open>isNumber\<close>: the finding says
  that the entry is empty.
\<close>

theorem validateFields_falsy_value_becomes_empty_string_witness:
  "validateFields example_lib [(''amount'', isNumber, None, None)] [''amount'' \<mapsto> JNum (Fin 0)]
     ''grants'' (Some 7) empty_context
   = Inr [ValidationItem (''Empty or invalid entry for amount: '' @ [CHR 0x22, CHR 0x22])
            ''grants'' (Some 7)]"
  using validateFields_falsy_value_becomes_empty_string
    [of "[''amount'' \<mapsto> JNum (Fin 0)]" "''amount''" None empty_context example_lib isNumber
        None "[]" "''grants''" "Some 7"]
  by (simp add: js_get_def includeValidator_def isNumber_def replace_braces_def
        default_message_def)

section \<open>Properties of the document-set validators\<close>

text \<open>
  Claim C6. When the tab has no record or more than one, \<^verbatim>\<open>validateSingleDocument\<close>
  returns one finding with the given message and without a row, whatever the rules are,
  also rules that would throw. When the tab has one record, it returns what
  \<^verbatim>\<open>validateFields\<close> returns for the content of that record and the row 2.
\<close>

theorem validateSingleDocument_cardinality:
  "(\<forall>records. records = (case groupedDocuments tab of None \<Rightarrow> [] | Some ds \<Rightarrow> ds) \<longrightarrow>
       length records \<noteq> 1 \<longrightarrow>
       validateSingleDocument lib tab validations message groupedDocuments context
       = Inr [ValidationItem message tab None])
   \<and> (\<forall>d. groupedDocuments tab = Some [d] \<longrightarrow>
       validateSingleDocument lib tab validations message groupedDocuments context
       = validateFields lib validations (doc_content d) tab (Some 2) context)"
  by (auto simp: validateSingleDocument_def split: option.splits)

text \<open>
  The tab \<^verbatim>\<open>cover\<close> with a rule that always throws: without a record and with two records
  the result is the one finding; with one record the rule is evaluated, with the row 2.
\<close>

theorem validateSingleDocument_cardinality_witness:
  "validateSingleDocument example_lib ''cover'' [(''name'', (\<lambda>v c x. Inl TypeError), None, None)]
     ''cover requires a row'' (groupBy []) empty_context
   = Inr [ValidationItem ''cover requires a row'' ''cover'' None]
   \<and> validateSingleDocument example_lib ''cover'' [(''name'', (\<lambda>v c x. Inl TypeError), None, None)]
     ''cover requires a row''
     (groupBy [\<lparr>doc_type = ''cover'', doc_content = Map.empty, sourceRow = Some 2\<rparr>,
               \<lparr>doc_type = ''cover'', doc_content = Map.empty, sourceRow = Some 3\<rparr>])
     empty_context
   = Inr [ValidationItem ''cover requires a row'' ''cover'' None]
   \<and> validateSingleDocument example_lib ''cover'' [(''name'', isNotBlank, Some ''no name'', None)]
     ''cover requires a row''
     (groupBy [\<lparr>doc_type = ''cover'', doc_content = Map.empty, sourceRow = Some 9\<rparr>])
     empty_context
   = Inr [ValidationItem ''no name'' ''cover'' (Some 2)]"
  using validateSingleDocument_cardinality
      [of "groupBy []" "''cover''" example_lib
          "[(''name'', (\<lambda>v c x. Inl TypeError), None, None)]" "''cover requires a row''"
          empty_context]
    validateSingleDocument_cardinality
      [of "groupBy [\<lparr>doc_type = ''cover'', doc_content = Map.empty, sourceRow = Some 2\<rparr>,
                    \<lparr>doc_type = ''cover'', doc_content = Map.empty, sourceRow = Some 3\<rparr>]"
          "''cover''" example_lib
          "[(''name'', (\<lambda>v c x. Inl TypeError), None, None)]" "''cover requires a row''"
          empty_context]
    validateSingleDocument_cardinality
      [of "groupBy [\<lparr>doc_type = ''cover'', doc_content = Map.empty, sourceRow = Some 9\<rparr>]"
          "''cover''" example_lib
          "[(''name'', isNotBlank, Some ''no name'', None)]" "''cover requires a row''"
          empty_context]
  by (simp add: groupBy_def includeValidator_def isNotBlank_def js_get_def js_or_def
        addValueToMessage_def messageValue_def replace_braces_def)

section \<open>Properties of the predicate library\<close>

lemma strip_zeros_replicate: "strip_zeros (replicate n (CHR ''0'') @ s) = strip_zeros s"
  by (induction n) (simp_all add: strip_zeros_def)

lemma strip_zeros_padded_value:
  "strip_zeros (toString lib (js_or (JStr (replicate n (CHR ''0'') @ v)) (JStr '''')))
   = strip_zeros v"
proof (cases "replicate n (CHR ''0'') @ v = []")
  case True
  then show ?thesis by (simp add: js_or_def strip_zeros_def)
next
  case False
  then have "js_or (JStr (replicate n (CHR ''0'') @ v)) (JStr '''')
      = JStr (replicate n (CHR ''0'') @ v)"
    by (simp add: js_or_def)
  then show ?thesis by (simp add: strip_zeros_replicate)
qed

text \<open>
  Claim C8. When the file part of the key is a string, \<^verbatim>\<open>matchesFilePart(key)\<close> compares
  the value, as a string, and the file part after the leading zeros of both are removed.
  Zeros put in front of the file part, or of a value that is a string, do not change the
  result.
\<close>

theorem matchesFilePart_ignores_leading_zeros:
  assumes "fileParts context = Some parts" and "parts key = Some (JStr part)"
  shows "matchesFilePart lib key val content context
           = Inr (strip_zeros (toString lib (js_or val (JStr ''''))) = strip_zeros part)
       \<and> matchesFilePart lib key val content
            (context\<lparr>fileParts := Some (parts(key \<mapsto> JStr (replicate m (CHR ''0'') @ part)))\<rparr>)
         = matchesFilePart lib key val content context
       \<and> matchesFilePart lib key (JStr (replicate n (CHR ''0'') @ v)) content context
         = matchesFilePart lib key (JStr v) content context
       \<and> (\<forall>c s. strip_zeros (CHR ''0'' # s) = strip_zeros s
               \<and> (c \<noteq> CHR ''0'' \<longrightarrow> strip_zeros (c # s) = c # s))
       \<and> strip_zeros [] = []"
  using assms
  by (simp add: matchesFilePart_def strip_zeros_padded_value strip_zeros_replicate Let_def)
     (simp add: strip_zeros_def js_or_def)

text \<open>
  The value \<^verbatim>\<open>007\<close> matches the file part \<^verbatim>\<open>7\<close>, the value \<^verbatim>\<open>7\<close> matches the file part
  \<^verbatim>\<open>0007\<close>, and the value \<^verbatim>\<open>70\<close> does not match the file part \<^verbatim>\<open>7\<close>.
\<close>

theorem matchesFilePart_ignores_leading_zeros_witness:
  "matchesFilePart example_lib ''agencyCode'' (JStr ''007'') Map.empty
     (empty_context\<lparr>fileParts := Some [''agencyCode'' \<mapsto> JStr ''7'']\<rparr>) = Inr True
   \<and> matchesFilePart example_lib ''agencyCode'' (JStr ''7'') Map.empty
     (empty_context\<lparr>fileParts := Some [''agencyCode'' \<mapsto> JStr ''0007'']\<rparr>) = Inr True
   \<and> matchesFilePart example_lib ''agencyCode'' (JStr ''70'') Map.empty
     (empty_context\<lparr>fileParts := Some [''agencyCode'' \<mapsto> JStr ''7'']\<rparr>) = Inr False"
  using matchesFilePart_ignores_leading_zeros
      [of "empty_context\<lparr>fileParts := Some [''agencyCode'' \<mapsto> JStr ''7'']\<rparr>"
          "[''agencyCode'' \<mapsto> JStr ''7'']" "''agencyCode''" "''7''" example_lib
          "JStr ''007''" Map.empty 0 3 "''7''"]
    matchesFilePart_ignores_leading_zeros
      [of "empty_context\<lparr>fileParts := Some [''agencyCode'' \<mapsto> JStr ''7'']\<rparr>"
          "[''agencyCode'' \<mapsto> JStr ''7'']" "''agencyCode''" "''7''" example_lib
          "JStr ''70''" Map.empty 0 3 "''7''"]
  by (simp add: js_or_def strip_zeros_def matchesFilePart_def)

lemma js_str_lt_trans: "js_str_lt a b \<Longrightarrow> js_str_lt b c \<Longrightarrow> js_str_lt a c"
proof (induction a b arbitrary: c rule: js_str_lt.induct)
  case 1
  then show ?case by simp
next
  case (2 y ys)
  then show ?case by (cases c) simp_all
next
  case (3 x xs)
  then show ?case by simp
next
  case (4 x xs y ys)
  show ?case
  proof (cases c)
    case Nil
    with 4 show ?thesis by simp
  next
    case (Cons z zs)
    with 4 show ?thesis by (auto simp del: of_char_eq_iff)
  qed
qed

lemma js_str_lt_total: "js_str_lt a b \<or> a = b \<or> js_str_lt b a"
proof (induction a b rule: js_str_lt.induct)
  case (4 x xs y ys)
  have "(of_char x :: nat) < of_char y \<or> x = y \<or> (of_char y :: nat) < of_char x"
    using of_char_eq_iff [of x y, where ?'a = nat] by linarith
  with 4 show ?case by auto
qed simp_all

lemma js_str_le_trans: "js_str_le a b \<Longrightarrow> js_str_le b c \<Longrightarrow> js_str_le a c"
proof -
  assume ab: "js_str_le a b" and bc: "js_str_le b c"
  show "js_str_le a c"
    unfolding js_str_le_def
  proof
    assume ca: "js_str_lt c a"
    from js_str_lt_total [of a b] ab have "js_str_lt a b \<or> a = b"
      by (simp add: js_str_le_def)
    then have "js_str_lt c b"
      using ca js_str_lt_trans by blast
    with bc show False by (simp add: js_str_le_def)
  qed
qed

lemma js_str_le_Nil: "js_str_le [] s"
  by (cases s) (simp_all add: js_str_le_def)

text \<open>
  Claim C10. When the context has a reporting period, \<^verbatim>\<open>dateIsInPeriodOfPerformance\<close> is
  true exactly when the formatted value is at most the end date of the period of
  performance, as strings. There is no lower bound: a value whose formatted string is
  below that of an accepted value is accepted, a value that formats to the empty string is
  accepted, and the start and end dates of the reporting period are not read.
\<close>

theorem dateIsInPeriodOfPerformance_upper_bound_only:
  assumes "reportingPeriod context = Some period"
  shows "dateIsInPeriodOfPerformance lib val content context
           = Inr (js_str_le (ssf_format lib ''yyyy-MM-dd'' val) (periodOfPerformanceEndDate period))
       \<and> (\<forall>earlier.
             js_str_le (ssf_format lib ''yyyy-MM-dd'' earlier) (ssf_format lib ''yyyy-MM-dd'' val) \<longrightarrow>
             dateIsInPeriodOfPerformance lib val content context = Inr True \<longrightarrow>
             dateIsInPeriodOfPerformance lib earlier content context = Inr True)
       \<and> (ssf_format lib ''yyyy-MM-dd'' val = [] \<longrightarrow>
             dateIsInPeriodOfPerformance lib val content context = Inr True)
       \<and> (\<forall>s e. dateIsInPeriodOfPerformance lib val content
                   (context\<lparr>reportingPeriod := Some (period\<lparr>startDate := s, endDate := e\<rparr>)\<rparr>)
                 = dateIsInPeriodOfPerformance lib val content context)"
proof -
  have run: "dateIsInPeriodOfPerformance lib v content context
      = Inr (js_str_le (ssf_format lib ''yyyy-MM-dd'' v) (periodOfPerformanceEndDate period))" for v
    using assms by (simp add: dateIsInPeriodOfPerformance_def)
  have down: "dateIsInPeriodOfPerformance lib earlier content context = Inr True"
    if "js_str_le (ssf_format lib ''yyyy-MM-dd'' earlier) (ssf_format lib ''yyyy-MM-dd'' val)"
      and "dateIsInPeriodOfPerformance lib val content context = Inr True" for earlier
    using that js_str_le_trans by (auto simp add: run)
  have least: "dateIsInPeriodOfPerformance lib val content context = Inr True"
    if "ssf_format lib ''yyyy-MM-dd'' val = []"
    using that by (simp add: run js_str_le_Nil)
  have other: "dateIsInPeriodOfPerformance lib val content
      (context\<lparr>reportingPeriod := Some (period\<lparr>startDate := s, endDate := e\<rparr>)\<rparr>)
      = dateIsInPeriodOfPerformance lib val content context" for s e
    using assms by (simp add: dateIsInPeriodOfPerformance_def)
  show ?thesis
    using run down least other by blast
qed

text \<open>
  With the period of the tests, a date of the year 1066 is in the period of performance,
  and not in the reporting period, which has a lower bound; the day after the end date is
  not in the period of performance.
\<close>

theorem dateIsInPeriodOfPerformance_upper_bound_only_witness:
  "dateIsInPeriodOfPerformance example_lib (JStr ''1066-10-14'') Map.empty
     (empty_context\<lparr>reportingPeriod := Some \<lparr>startDate = ''2020-03-01'', endDate = ''2020-12-30'',
        periodOfPerformanceEndDate = ''2020-12-30''\<rparr>\<rparr>) = Inr True
   \<and> dateIsInReportingPeriod example_lib (JStr ''1066-10-14'') Map.empty
     (empty_context\<lparr>reportingPeriod := Some \<lparr>startDate = ''2020-03-01'', endDate = ''2020-12-30'',
        periodOfPerformanceEndDate = ''2020-12-30''\<rparr>\<rparr>) = Inr False
   \<and> dateIsInPeriodOfPerformance example_lib (JStr ''2020-12-31'') Map.empty
     (empty_context\<lparr>reportingPeriod := Some \<lparr>startDate = ''2020-03-01'', endDate = ''2020-12-30'',
        periodOfPerformanceEndDate = ''2020-12-30''\<rparr>\<rparr>) = Inr False"
  using dateIsInPeriodOfPerformance_upper_bound_only
      [of "empty_context\<lparr>reportingPeriod := Some \<lparr>startDate = ''2020-03-01'',
             endDate = ''2020-12-30'', periodOfPerformanceEndDate = ''2020-12-30''\<rparr>\<rparr>"
          "\<lparr>startDate = ''2020-03-01'', endDate = ''2020-12-30'',
            periodOfPerformanceEndDate = ''2020-12-30''\<rparr>"
          example_lib "JStr ''1066-10-14''" Map.empty]
    dateIsInPeriodOfPerformance_upper_bound_only
      [of "empty_context\<lparr>reportingPeriod := Some \<lparr>startDate = ''2020-03-01'',
             endDate = ''2020-12-30'', periodOfPerformanceEndDate = ''2020-12-30''\<rparr>\<rparr>"
          "\<lparr>startDate = ''2020-03-01'', endDate = ''2020-12-30'',
            periodOfPerformanceEndDate = ''2020-12-30''\<rparr>"
          example_lib "JStr ''2020-12-31''" Map.empty]
  by (simp add: example_lib_def js_str_le_def dateIsInReportingPeriod_def)

section \<open>Evaluating numbers\<close>

lemma floor_rat_numeral: "\<lfloor>(numeral a :: rat) / numeral b\<rfloor> = numeral a div numeral b"
  using floor_divide_of_int_eq [of "numeral a" "numeral b", where ?'a = rat] by simp

lemma floor_rat_one: "\<lfloor>(1 :: rat) / numeral b\<rfloor> = 1 div numeral b"
  using floor_divide_of_int_eq [of 1 "numeral b", where ?'a = rat] by simp

lemma ceiling_rat_numeral:
  "\<lceil>(numeral a :: rat) / numeral b\<rceil> = - ((- numeral a) div numeral b)"
  using ceiling_divide_eq_div [of "numeral a" "numeral b", where ?'a = rat] by simp

lemma ceiling_rat_one: "\<lceil>(1 :: rat) / numeral b\<rceil> = - ((- 1) div numeral b)"
  using ceiling_divide_eq_div [of 1 "numeral b", where ?'a = rat] by simp

lemma scan_numeral:
  "scan (numeral k) x j =
     (case candidate x j of Some d \<Rightarrow> d | None \<Rightarrow> scan (pred_numeral k) x (j - 1))"
  by (simp add: numeral_eq_Suc)

lemmas dbl_eval = fl_def fl_pos_def ilog2_def pow2_def pow10_def round_half_even_def Let_def
  compute_bitlen floor_rat_numeral floor_rat_one ceiling_rat_numeral ceiling_rat_one

lemmas sd_eval = dbl_eval shortest_decimal_def scan_numeral candidate_def digits.simps

lemma num_eq_Fin [simp]: "num_eq (Fin x) (Fin y) \<longleftrightarrow> x = y"
  by simp

lemma num_or_Fin_0 [simp]: "num_or (Fin x) (Fin 0) = Fin x"
  by (simp add: num_or_def)

lemma round2_0: "round2 (Fin 0) = Fin 0"
  by (simp add: sd_eval)

lemma fl_50_30: "fl (50 + 30) = Fin 80"
  by (simp add: dbl_eval)

lemma round2_80: "round2 (Fin 80) = Fin 80"
  by (simp add: sd_eval)

lemma fl_7999: "fl (7999 / 100) = Fin (5628795846771343 / 70368744177664)"
  by (simp add: dbl_eval)

lemma round2_7999:
  "round2 (Fin (5628795846771343 / 70368744177664)) = Fin (5628795846771343 / 70368744177664)"
  by (simp add: sd_eval)

section \<open>The cumulative amount\<close>

text \<open>
  Claim C3. With the amount 50 in the record and one summary with the current amount 30,
  \<^verbatim>\<open>cumulativeAmountIsEqual\<close> is true at 80 and false at 79.99, the double nearest to it.
  With a second summary that has no current amount, \<^verbatim>\<open>acc + Number(s) || 0.0\<close> is
  \<^verbatim>\<open>(80 + NaN) || 0.0\<close>: the sum starts again from \<open>0\<close>, so the check is false at 80 and true
  at 0. The reading \<^verbatim>\<open>acc + (Number(s) || 0.0)\<close>, which the first line of the function and
  \<^verbatim>\<open>isSum\<close> use for a value that is not a number, keeps the sum at 80.
\<close>

theorem cumulativeAmountIsEqual_resets_sum:
  "cumulativeAmountIsEqual lib ''amount'' (\<lambda>s. True) (JNum (Fin 80))
     [''amount'' \<mapsto> JNum (Fin 50)]
     (empty_context\<lparr>periodSummaries := Some [[''current_amount'' \<mapsto> JNum (Fin 30)]]\<rparr>)
   = Inr True
   \<and> cumulativeAmountIsEqual lib ''amount'' (\<lambda>s. True) (JNum (fl (7999 / 100)))
     [''amount'' \<mapsto> JNum (Fin 50)]
     (empty_context\<lparr>periodSummaries := Some [[''current_amount'' \<mapsto> JNum (Fin 30)]]\<rparr>)
   = Inr False
   \<and> cumulativeAmountIsEqual lib ''amount'' (\<lambda>s. True) (JNum (Fin 80))
     [''amount'' \<mapsto> JNum (Fin 50)]
     (empty_context\<lparr>periodSummaries :=
        Some [[''current_amount'' \<mapsto> JNum (Fin 30)], [''current_obligation'' \<mapsto> JNum (Fin 5)]]\<rparr>)
   = Inr False
   \<and> cumulativeAmountIsEqual lib ''amount'' (\<lambda>s. True) (JNum (Fin 0))
     [''amount'' \<mapsto> JNum (Fin 50)]
     (empty_context\<lparr>periodSummaries :=
        Some [[''current_amount'' \<mapsto> JNum (Fin 30)], [''current_obligation'' \<mapsto> JNum (Fin 5)]]\<rparr>)
   = Inr True"
proof -
  have sum: "num_add (Fin 50) (Fin 30) = Fin 80"
    using fl_50_30 by simp
  have nan: "num_add (Fin 80) NaN = NaN"
    by simp
  show ?thesis
    by (simp add: cumulativeAmountIsEqual_def cumulative_step_def js_get_def num_or_def
          empty_context_def Let_def sum nan fl_7999 round2_7999 round2_80 round2_0
          del: round2.simps num_add.simps)
qed

section \<open>The exceptions of the predicates\<close>





end
